theory Spec2Isabelle
  imports Main "HOL-Library.AList" "HOL-Library.Word"
begin

section \<open>Python values, keyword arguments and exceptions\<close>

text \<open>
  The module \<^verbatim>\<open>api/models.py\<close> declares the persistent data model of the shop (users,
  tokens, wallets, stores, products, invoices and the product/invoice join table) and three
  pieces of logic: \<^verbatim>\<open>Token.create\<close>, \<^verbatim>\<open>Invoice.create\<close> and the update request
  \<^verbatim>\<open>MyUpdateRequest\<close> of invoices.

  Keyword arguments (\<^verbatim>\<open>**kwargs\<close>) are Python dictionaries: association lists from names
  to dynamically typed values, in insertion order. \<^verbatim>\<open>kwargs[k] = v\<close> is \<open>AList.update\<close>,
  \<^verbatim>\<open>kwargs.pop(k)\<close> of a present key is \<open>AList.delete\<close>, \<^verbatim>\<open>kwargs[k]\<close> is \<open>map_of\<close> and
  raises \<^verbatim>\<open>KeyError\<close> on \<open>None\<close>. Amounts (\<^verbatim>\<open>Numeric(16, 8)\<close>) and timestamps are carried as
  integers (a count of units of \<open>10\<^sup>-\<^sup>8\<close>, seconds of UTC time).
\<close>

datatype val = VNone | VInt int | VStr string | VList "int list"

type_synonym kwargs = "(string \<times> val) list"

text \<open>Python's truth value of an object, as tested by \<^verbatim>\<open>if x:\<close> and \<^verbatim>\<open>if not x:\<close>.\<close>

fun truthy :: "val \<Rightarrow> bool" where
  "truthy VNone = False"
| "truthy (VInt i) = (i \<noteq> 0)"
| "truthy (VStr s) = (s \<noteq> [])"
| "truthy (VList xs) = (xs \<noteq> [])"

text \<open>\<^verbatim>\<open>kwargs.get(k)\<close>: the value, or \<^verbatim>\<open>None\<close> when the key is absent.\<close>

definition kwargs_get :: "kwargs \<Rightarrow> string \<Rightarrow> val" where
  "kwargs_get kwargs k = (case map_of kwargs k of None \<Rightarrow> VNone | Some v \<Rightarrow> v)"

text \<open>
  The exceptions that leave the functions of the module. \<open>HTTPException\<close> is FastAPI's, with
  its status code and detail; \<open>KeyError\<close>, \<open>TypeError\<close> and \<open>IndexError\<close> are Python's.
  \<open>DataError\<close> (with its subclasses) is the database driver's: a value that cannot be encoded
  for its column, or that the engine finds out of the column's range. The three violation
  errors and \<open>PostgresSyntaxError\<close> are the engine's refusals of a statement;
  \<open>NoSuchRowError\<close> is the ORM's, for an \<^verbatim>\<open>UPDATE\<close> that matched no row.
  \<open>ConnectionError\<close> and \<open>RPCError\<close> are the failures of the wallet daemon's client. The
  string carried by an exception names what was refused; it is not the library's wording.
\<close>

datatype error =
    HTTPException int string
  | KeyError string
  | TypeError string
  | IndexError string
  | DataError string
  | NotNullViolationError string
  | UniqueViolationError string
  | ForeignKeyViolationError string
  | PostgresSyntaxError string
  | NoSuchRowError
  | ConnectionError string
  | RPCError string

text \<open>Formatting an integer inside an f-string: \<^verbatim>\<open>str(i)\<close>.\<close>

fun str_nat :: "nat \<Rightarrow> string" where
  "str_nat n =
     (if n < 10 then [''0123456789'' ! n]
      else str_nat (n div 10) @ [''0123456789'' ! (n mod 10)])"

declare str_nat.simps [simp del]

definition str_int :: "int \<Rightarrow> string" where
  "str_int i = (if i < 0 then CHR ''-'' # str_nat (nat (- i)) else str_nat (nat i))"

text \<open>Formatting a nullable integer column: \<^verbatim>\<open>None\<close> prints as \<^verbatim>\<open>None\<close>.\<close>

definition str_opt_int :: "int option \<Rightarrow> string" where
  "str_opt_int x = (case x of None \<Rightarrow> ''None'' | Some i \<Rightarrow> str_int i)"


section \<open>The schema\<close>

text \<open>
  One record per model class, one field per \<^verbatim>\<open>Column\<close>. A column that may be NULL has an
  option type; primary keys and \<^verbatim>\<open>nullable=False\<close> columns do not. Field names carry the
  class name where two classes share a column name.
\<close>

record User =
  User_id :: int
  username :: "string option"
  User_email :: "string option"
  hashed_password :: "string option"
  is_superuser :: "bool option"

record Token =
  Token_key :: string
  Token_user_id :: "int option"
  Token_created :: "int option"

record Wallet =
  Wallet_id :: int
  Wallet_name :: "string option"
  Wallet_xpub :: "string option"
  Wallet_balance :: "int option"
  Wallet_user_id :: "int option"

record Store =
  Store_id :: int
  Store_name :: "string option"
  Store_domain :: "string option"
  Store_template :: "string option"
  Store_email :: "string option"
  Store_wallet_id :: "int option"
  email_host :: "string option"
  email_password :: "string option"
  email_port :: "int option"
  email_use_ssl :: "bool option"
  email_user :: "string option"

record Product =
  Product_id :: int
  Product_amount :: int
  Product_quantity :: int
  Product_title :: string
  Product_date :: int
  Product_description :: "string option"
  Product_image :: "string option"
  Product_store_id :: "int option"
  Product_status :: string

record ProductxInvoice =
  product_id :: "int option"
  invoice_id :: "int option"

text \<open>
  \<^verbatim>\<open>Invoice.create\<close> builds its row from the keyword arguments it is given, so a stored
  invoice is its primary key together with the dictionary of its other columns.
\<close>

record Invoice =
  Invoice_id :: int
  Invoice_attrs :: kwargs

text \<open>
  The columns of the invoices table, in the order of their declaration, with their types.
  None of them may be NULL: \<^verbatim>\<open>id\<close> is the primary key and the others are declared
  \<^verbatim>\<open>nullable=False\<close>. \<^verbatim>\<open>products\<close> is a relationship, not a column.
\<close>

datatype coltype = Integer | Numeric | String nat | DateTime

definition Invoice_columns :: "(string \<times> coltype) list" where
  "Invoice_columns =
     [(''id'', Integer), (''amount'', Numeric), (''status'', String 1000), (''date'', DateTime),
      (''bitcoin_address'', String 255), (''bitcoin_url'', String 255)]"

text \<open>The range of a 32-bit \<^verbatim>\<open>Integer\<close> column.\<close>

definition int4 :: "int \<Rightarrow> bool" where
  "int4 i = (- 2147483648 \<le> i \<and> i \<le> 2147483647)"

text \<open>
  What the driver can encode for a column of a given type: \<^verbatim>\<open>None\<close> for any column, an
  integer within 32 bits for \<^verbatim>\<open>Integer\<close>, a number for \<^verbatim>\<open>Numeric\<close>, a string for
  \<^verbatim>\<open>String\<close>, a timestamp for \<^verbatim>\<open>DateTime\<close>. And what the engine then accepts for the
  declared precision or length: \<^verbatim>\<open>Numeric(16, 8)\<close> holds fewer than \<open>10\<^sup>8\<close> whole units,
  that is fewer than \<open>10\<^sup>1\<^sup>6\<close> units of \<open>10\<^sup>-\<^sup>8\<close>; \<^verbatim>\<open>String(n)\<close> holds at most \<open>n\<close>
  characters.
\<close>

fun encodes :: "coltype \<Rightarrow> val \<Rightarrow> bool" where
  "encodes t VNone = True"
| "encodes Integer (VInt i) = int4 i"
| "encodes Numeric (VInt a) = True"
| "encodes DateTime (VInt t) = True"
| "encodes (String n) (VStr s) = True"
| "encodes t v = False"

fun in_range :: "coltype \<Rightarrow> val \<Rightarrow> bool" where
  "in_range Numeric (VInt a) = (\<bar>a\<bar> < 10000000000000000)"
| "in_range (String n) (VStr s) = (length s \<le> n)"
| "in_range t v = True"

definition is_column :: "string \<Rightarrow> bool" where
  "is_column k = (map_of Invoice_columns k \<noteq> None)"

definition encodable :: "string \<Rightarrow> val \<Rightarrow> bool" where
  "encodable k v = (case map_of Invoice_columns k of None \<Rightarrow> False | Some t \<Rightarrow> encodes t v)"

definition within_range :: "string \<Rightarrow> val \<Rightarrow> bool" where
  "within_range k v = (case map_of Invoice_columns k of None \<Rightarrow> False | Some t \<Rightarrow> in_range t v)"

text \<open>The \<^verbatim>\<open>ondelete\<close> argument of a \<^verbatim>\<open>ForeignKey\<close>.\<close>

datatype ondelete = CASCADE | SET_NULL

definition Token_user_id_ondelete :: ondelete where
  "Token_user_id_ondelete = CASCADE"

definition Wallet_user_id_ondelete :: ondelete where
  "Wallet_user_id_ondelete = SET_NULL"

definition Store_wallet_id_ondelete :: ondelete where
  "Store_wallet_id_ondelete = SET_NULL"

definition Product_store_id_ondelete :: ondelete where
  "Product_store_id_ondelete = SET_NULL"

definition ProductxInvoice_product_id_ondelete :: ondelete where
  "ProductxInvoice_product_id_ondelete = SET_NULL"

definition ProductxInvoice_invoice_id_ondelete :: ondelete where
  "ProductxInvoice_invoice_id_ondelete = SET_NULL"

text \<open>
  The database: one list of rows per table (the field \<open>t_table\<close> for the table named
  \<open>t\<close>), in insertion order, and the last value drawn from the sequence behind the invoices'
  integer primary key.
\<close>

record database =
  users_table :: "User list"
  tokens_table :: "Token list"
  wallets_table :: "Wallet list"
  stores_table :: "Store list"
  products_table :: "Product list"
  invoices_table :: "Invoice list"
  invoices_id_seq :: int
  productsxinvoices_table :: "ProductxInvoice list"


section \<open>The operations inherited from the model base class\<close>

text \<open>
  \<^verbatim>\<open>Model.get(pk)\<close>, \<^verbatim>\<open>Model.create(...)\<close>, \<^verbatim>\<open>Model.delete.where(...)\<close> and the base
  \<^verbatim>\<open>UpdateRequest\<close> belong to the ORM. They are modelled by the SQL statement each one
  issues, acting on the tables above, together with the refusals of the ORM, the driver and
  the engine:
  \<^item> a keyword that is not a column of the model is refused by the ORM with \<^verbatim>\<open>KeyError\<close>,
    before any statement is sent;
  \<^item> a value that the driver cannot encode for its column is refused with \<^verbatim>\<open>DataError\<close>,
    before the statement is sent;
  \<^item> the engine refuses a value beyond the declared precision or length, a NULL in a column
    that is not nullable, a duplicate primary key, and a foreign key that names no row.

  A value read from a row is within the type of its column; the checks apply to the values
  that arrive from the caller.
\<close>

definition Product_get :: "int \<Rightarrow> database \<Rightarrow> error + Product option" where
  "Product_get i d =
     (if int4 i then Inr (find (\<lambda>r. Product_id r = i) (products_table d))
      else Inl (DataError ''value out of int32 range''))"

text \<open>
  The keys of the next two lookups are read from a row. A lookup by a NULL key finds no
  row.
\<close>

definition Store_get :: "int option \<Rightarrow> database \<Rightarrow> Store option" where
  "Store_get i d =
     (case i of None \<Rightarrow> None | Some j \<Rightarrow> find (\<lambda>r. Store_id r = j) (stores_table d))"

definition Wallet_get :: "int option \<Rightarrow> database \<Rightarrow> Wallet option" where
  "Wallet_get i d =
     (case i of None \<Rightarrow> None | Some j \<Rightarrow> find (\<lambda>r. Wallet_id r = j) (wallets_table d))"

definition Invoice_get :: "int \<Rightarrow> database \<Rightarrow> Invoice option" where
  "Invoice_get i d = find (\<lambda>r. Invoice_id r = i) (invoices_table d)"

definition Model_create_Token :: "Token \<Rightarrow> database \<Rightarrow> Token \<times> database" where
  "Model_create_Token row d = (row, d\<lparr>tokens_table := tokens_table d @ [row]\<rparr>)"

text \<open>
  \<^verbatim>\<open>Invoice.create\<close> of the base class, \<^verbatim>\<open>INSERT INTO invoices\<close>. The instance is built
  first, which refuses a keyword that is not a column. The driver then encodes the values.
  The engine draws the \<^verbatim>\<open>id\<close> from the sequence when none is given (a value drawn is
  not given back when the statement fails), checks precision and length, the columns that
  may not be NULL in the order of the table, and the uniqueness of the primary key.
\<close>

definition Model_create_Invoice :: "kwargs \<Rightarrow> database \<Rightarrow> (error + Invoice) \<times> database" where
  "Model_create_Invoice kwargs d =
     (case find (\<lambda>(k, v). \<not> is_column k) kwargs of
        Some (k, v) \<Rightarrow> (Inl (KeyError k), d)
      | None \<Rightarrow>
     (case find (\<lambda>(k, v). \<not> encodable k v) kwargs of
        Some (k, v) \<Rightarrow> (Inl (DataError k), d)
      | None \<Rightarrow>
     (let d1 = (if map_of kwargs ''id'' = None
                then d\<lparr>invoices_id_seq := invoices_id_seq d + 1\<rparr> else d);
          row = (if map_of kwargs ''id'' = None
                 then (''id'', VInt (invoices_id_seq d1)) # kwargs else kwargs)
      in case find (\<lambda>(k, v). \<not> within_range k v) row of
           Some (k, v) \<Rightarrow> (Inl (DataError k), d1)
         | None \<Rightarrow>
        (case find (\<lambda>k. kwargs_get row k = VNone) (map fst Invoice_columns) of
           Some k \<Rightarrow> (Inl (NotNullViolationError k), d1)
         | None \<Rightarrow>
        (case kwargs_get row ''id'' of
           VInt i \<Rightarrow>
             (if Invoice_get i d1 \<noteq> None then (Inl (UniqueViolationError ''id''), d1)
              else
                (let invoice = \<lparr>Invoice_id = i, Invoice_attrs = AList.delete ''id'' kwargs\<rparr>
                 in (Inr invoice, d1\<lparr>invoices_table := invoices_table d1 @ [invoice]\<rparr>)))
         | _ \<Rightarrow> (Inl (DataError ''id''), d1))))))"

text \<open>
  \<^verbatim>\<open>ProductxInvoice.create(invoice_id=..., product_id=...)\<close>. The invoice id is the
  attribute \<^verbatim>\<open>id\<close> of an instance, a Python value; the product id is an element of the
  \<^verbatim>\<open>products\<close> list. Both columns are nullable \<^verbatim>\<open>Integer\<close> foreign keys.
\<close>

definition ProductxInvoice_create :: "val \<Rightarrow> int \<Rightarrow> database \<Rightarrow> error + database" where
  "ProductxInvoice_create iid pid d =
     (if \<not> encodes Integer (VInt pid) then Inl (DataError ''product_id'')
      else if \<not> encodes Integer iid then Inl (DataError ''invoice_id'')
      else if find (\<lambda>r. Product_id r = pid) (products_table d) = None
        then Inl (ForeignKeyViolationError ''product_id'')
      else
        (case iid of
           VInt i \<Rightarrow>
             (if Invoice_get i d = None then Inl (ForeignKeyViolationError ''invoice_id'')
              else Inr (d\<lparr>productsxinvoices_table :=
                            productsxinvoices_table d
                              @ [\<lparr>product_id = Some pid, invoice_id = Some i\<rparr>]\<rparr>))
         | _ \<Rightarrow>
             Inr (d\<lparr>productsxinvoices_table :=
                       productsxinvoices_table d
                         @ [\<lparr>product_id = Some pid, invoice_id = None\<rparr>]\<rparr>)))"

text \<open>
  \<^verbatim>\<open>ProductxInvoice.delete.where(ProductxInvoice.invoice_id == i)\<close>. A comparison with
  \<^verbatim>\<open>None\<close> is rendered \<^verbatim>\<open>IS NULL\<close>.
\<close>

definition ProductxInvoice_delete_where_invoice_id :: "val \<Rightarrow> database \<Rightarrow> error + database" where
  "ProductxInvoice_delete_where_invoice_id iid d =
     (if \<not> encodes Integer iid then Inl (DataError ''invoice_id'')
      else
        (case iid of
           VInt i \<Rightarrow>
             Inr (d\<lparr>productsxinvoices_table :=
                       filter (\<lambda>r. invoice_id r \<noteq> Some i) (productsxinvoices_table d)\<rparr>)
         | _ \<Rightarrow>
             Inr (d\<lparr>productsxinvoices_table :=
                       filter (\<lambda>r. invoice_id r \<noteq> None) (productsxinvoices_table d)\<rparr>)))"


section \<open>Token.create\<close>

text \<open>
  \<^verbatim>\<open>os.urandom(n)\<close> reads \<open>n\<close> bytes from the operating system's entropy source, which is an
  input of the model: the function giving the \<open>k\<close>-th byte read. \<^verbatim>\<open>bytes.hex()\<close> prints every
  byte as two lower-case hexadecimal digits, high nibble first.
\<close>

definition os_urandom :: "(nat \<Rightarrow> 8 word) \<Rightarrow> nat \<Rightarrow> 8 word list" where
  "os_urandom entropy n = map entropy [0..<n]"

definition hexdigits :: string where
  "hexdigits = ''0123456789abcdef''"

definition bytes_hex :: "8 word list \<Rightarrow> string" where
  "bytes_hex bs =
     concat (map (\<lambda>b. [hexdigits ! (unat b div 16), hexdigits ! (unat b mod 16)]) bs)"

text \<open>
  Modelled from the spec: \<^verbatim>\<open>utils.now\<close> (the module \<^verbatim>\<open>api/utils.py\<close> is not part of the
  sources at hand). The specification says that token creation "stamps current UTC
  timestamp": the function returns the reading of the clock, which is an input of the model.
\<close>

definition utils_now :: "int \<Rightarrow> int" where
  "utils_now clock = clock"

definition Token_create ::
  "(nat \<Rightarrow> 8 word) \<Rightarrow> int \<Rightarrow> User \<Rightarrow> database \<Rightarrow> Token \<times> database" where
  "Token_create entropy clock user d =
     (let user_id = User_id user;
          key = bytes_hex (os_urandom entropy 20);
          created = utils_now clock
      in Model_create_Token
           \<lparr>Token_key = key, Token_user_id = Some user_id, Token_created = Some created\<rparr> d)"


section \<open>Invoice.create\<close>

text \<open>
  The wallet daemon is reached through \<^verbatim>\<open>BTC(RPC_URL, ..., xpub=xpub).addrequest(amount,
  description=...)\<close>. The client, its endpoint and its credentials are outside the module:
  the call is a parameter of the model, taking the wallet's xpub, the amount and the
  description, and returning the daemon's answer (a dictionary) or the exception it raised.
\<close>

type_synonym addrequest = "string option \<Rightarrow> val \<Rightarrow> string option \<Rightarrow> error + kwargs"

text \<open>
  The body of \<^verbatim>\<open>Invoice.create\<close>, statement by statement. The result is the returned pair
  (invoice, xpub) or the exception raised, together with the database afterwards. A value of
  \<^verbatim>\<open>products\<close> that is true but not a list of ids fails where Python fails: an integer
  cannot be subscripted, and the first character of a string is not an integer key.
\<close>

definition Invoice_create ::
  "addrequest \<Rightarrow> kwargs \<Rightarrow> database \<Rightarrow> (error + Invoice \<times> string option) \<times> database" where
  "Invoice_create addrequest kwargs d =
     (case map_of kwargs ''products'' of
        None \<Rightarrow> (Inl (KeyError ''products''), d)
      | Some products \<Rightarrow>
          if \<not> truthy products then (Inl (HTTPException 422 ''Products list empty''), d)
          else
            (case products of
               VNone \<Rightarrow> (Inl (TypeError ''NoneType object is not subscriptable''), d)
             | VInt _ \<Rightarrow> (Inl (TypeError ''int object is not subscriptable''), d)
             | VStr _ \<Rightarrow> (Inl (DataError ''an integer is required''), d)
             | VList ps \<Rightarrow>
                 (case ps of
                    [] \<Rightarrow> (Inl (IndexError ''list index out of range''), d)
                  | p # _ \<Rightarrow>
                      (case Product_get p d of
                         Inl e \<Rightarrow> (Inl e, d)
                       | Inr None \<Rightarrow>
                           (Inl (HTTPException 422
                                  (''Product '' @ str_int p @ '' doesn't exist!'')), d)
                       | Inr (Some product) \<Rightarrow>
                           (case Store_get (Product_store_id product) d of
                              None \<Rightarrow>
                                (Inl (HTTPException 422
                                       (''Store '' @ str_opt_int (Product_store_id product)
                                          @ '' doesn't exist!'')), d)
                            | Some store \<Rightarrow>
                                (case Wallet_get (Store_wallet_id store) d of
                                   None \<Rightarrow> (Inl (HTTPException 422 ''No wallet linked''), d)
                                 | Some wallet \<Rightarrow>
                                     (let xpub = Wallet_xpub wallet in
                                      case map_of kwargs ''amount'' of
                                        None \<Rightarrow> (Inl (KeyError ''amount''), d)
                                      | Some amount \<Rightarrow>
                                          (case addrequest xpub amount
                                                  (Product_description product) of
                                             Inl e \<Rightarrow> (Inl e, d)
                                           | Inr data_got \<Rightarrow>
                                               (case map_of data_got ''address'' of
                                                  None \<Rightarrow> (Inl (KeyError ''address''), d)
                                                | Some address \<Rightarrow>
                                                    (case map_of data_got ''URI'' of
                                                       None \<Rightarrow> (Inl (KeyError ''URI''), d)
                                                     | Some uri \<Rightarrow>
    (let kwargs1 = AList.update ''bitcoin_address'' address kwargs;
         kwargs2 = AList.update ''bitcoin_url'' uri kwargs1;
         kwargs3 = AList.delete ''products'' kwargs2
     in case Model_create_Invoice kwargs3 d of
          (Inl e, d') \<Rightarrow> (Inl e, d')
        | (Inr invoice, d') \<Rightarrow> (Inr (invoice, xpub), d'))))))))))))"


section \<open>MyUpdateRequest\<close>

text \<open>
  The update request of an invoice: the attributes of the bound instance
  (\<^verbatim>\<open>self._instance\<close>, whose \<^verbatim>\<open>id\<close> is one of them), the primary key that the request
  located when it was made (\<^verbatim>\<open>self._locator\<close>), the column values collected for the
  \<^verbatim>\<open>UPDATE\<close> (\<^verbatim>\<open>self._values\<close>) and the attribute \<^verbatim>\<open>self.products\<close> that \<^verbatim>\<open>update\<close>
  sets.
\<close>

record MyUpdateRequest =
  self_instance :: kwargs
  self_locator :: int
  self_values :: kwargs
  self_products :: val

text \<open>\<^verbatim>\<open>dict.update\<close>: every item of the first dictionary is stored into the second.\<close>

definition dict_update :: "kwargs \<Rightarrow> kwargs \<Rightarrow> kwargs" where
  "dict_update new old = fold (\<lambda>(k, v). AList.update k v) new old"

text \<open>
  The base class. \<^verbatim>\<open>UpdateRequest.update(**values)\<close> takes the keywords in order: it sets
  the attribute on the bound instance and collects the value for \<^verbatim>\<open>apply\<close>, and it raises
  \<^verbatim>\<open>KeyError\<close> at the first keyword that is not a column of the model.
\<close>

fun UpdateRequest_update :: "kwargs \<Rightarrow> MyUpdateRequest \<Rightarrow> error + MyUpdateRequest" where
  "UpdateRequest_update [] self = Inr self"
| "UpdateRequest_update ((k, v) # kwargs) self =
     (if is_column k
      then UpdateRequest_update kwargs
             (self\<lparr>self_instance := AList.update k v (self_instance self),
                   self_values := AList.update k v (self_values self)\<rparr>)
      else Inl (KeyError k))"

text \<open>
  \<^verbatim>\<open>UpdateRequest.apply()\<close> issues \<^verbatim>\<open>UPDATE invoices SET ... WHERE id = ...\<close> with the
  collected values, for the row located when the request was made. With no value collected
  the statement has an empty \<^verbatim>\<open>SET\<close> list, which the engine refuses. Otherwise the values
  are checked as for an insert; a row that is not found raises \<^verbatim>\<open>NoSuchRowError\<close>; and a
  new primary key must be unused, and the old one unreferenced by the join table, whose
  foreign key declares no action for an update.
\<close>

definition UpdateRequest_apply ::
  "MyUpdateRequest \<Rightarrow> database \<Rightarrow> (error + MyUpdateRequest) \<times> database" where
  "UpdateRequest_apply self d =
     (let vals = self_values self; i = self_locator self
      in if vals = [] then (Inl (PostgresSyntaxError ''SET''), d)
         else
        (case find (\<lambda>(k, v). \<not> encodable k v) vals of
           Some (k, v) \<Rightarrow> (Inl (DataError k), d)
         | None \<Rightarrow>
        (case find (\<lambda>(k, v). \<not> within_range k v) vals of
           Some (k, v) \<Rightarrow> (Inl (DataError k), d)
         | None \<Rightarrow>
        (case Invoice_get i d of
           None \<Rightarrow> (Inl NoSuchRowError, d)
         | Some _ \<Rightarrow>
        (case find (\<lambda>(k, v). v = VNone) vals of
           Some (k, v) \<Rightarrow> (Inl (NotNullViolationError k), d)
         | None \<Rightarrow>
        (let j = (case map_of vals ''id'' of Some (VInt j) \<Rightarrow> j | _ \<Rightarrow> i)
         in if j \<noteq> i \<and> Invoice_get j d \<noteq> None then (Inl (UniqueViolationError ''id''), d)
            else if j \<noteq> i
                    \<and> find (\<lambda>r. invoice_id r = Some i) (productsxinvoices_table d) \<noteq> None
              then (Inl (ForeignKeyViolationError ''invoice_id''), d)
            else
              (Inr self,
               d\<lparr>invoices_table :=
                    map (\<lambda>r. if Invoice_id r = i
                              then \<lparr>Invoice_id = j,
                                    Invoice_attrs =
                                      dict_update (AList.delete ''id'' vals) (Invoice_attrs r)\<rparr>
                              else r)
                        (invoices_table d)\<rparr>)))))))"

definition MyUpdateRequest_update :: "kwargs \<Rightarrow> MyUpdateRequest \<Rightarrow> error + MyUpdateRequest" where
  "MyUpdateRequest_update kwargs self =
     (let self1 = self\<lparr>self_products := kwargs_get kwargs ''products''\<rparr>;
          kwargs1 = (if truthy (self_products self1) then AList.delete ''products'' kwargs
                     else kwargs)
      in UpdateRequest_update kwargs1 self1)"

text \<open>
  The loop of \<^verbatim>\<open>apply\<close>: one \<^verbatim>\<open>ProductxInvoice.create\<close> per element, in order. An
  insert that is refused ends the loop with its exception; the rows inserted before it stay.
\<close>

fun create_joins :: "val \<Rightarrow> int list \<Rightarrow> database \<Rightarrow> (error + unit) \<times> database" where
  "create_joins iid [] d = (Inr (), d)"
| "create_joins iid (i # ps) d =
     (case ProductxInvoice_create iid i d of
        Inl e \<Rightarrow> (Inl e, d)
      | Inr d' \<Rightarrow> create_joins iid ps d')"

text \<open>
  \<^verbatim>\<open>apply\<close>: the delete statement runs first, whatever \<^verbatim>\<open>self.products\<close> is; the loop
  then iterates over \<^verbatim>\<open>self.products\<close>, which raises \<^verbatim>\<open>TypeError\<close> for \<^verbatim>\<open>None\<close> and for an
  integer, and which for a string offers its first character as a product id. After the loop
  the list is stored on the instance and the \<^verbatim>\<open>apply\<close> of the base class runs.
\<close>

definition MyUpdateRequest_apply ::
  "MyUpdateRequest \<Rightarrow> database \<Rightarrow> (error + MyUpdateRequest) \<times> database" where
  "MyUpdateRequest_apply self d =
     (let iid = kwargs_get (self_instance self) ''id'';
          finish = (\<lambda>d2.
             UpdateRequest_apply
               (self\<lparr>self_instance :=
                       AList.update ''products'' (self_products self) (self_instance self)\<rparr>)
               d2)
      in case ProductxInvoice_delete_where_invoice_id iid d of
           Inl e \<Rightarrow> (Inl e, d)
         | Inr d1 \<Rightarrow>
             (case self_products self of
                VNone \<Rightarrow> (Inl (TypeError ''NoneType object is not iterable''), d1)
              | VInt _ \<Rightarrow> (Inl (TypeError ''int object is not iterable''), d1)
              | VStr s \<Rightarrow>
                  (if s = [] then finish d1
                   else (Inl (DataError ''an integer is required''), d1))
              | VList ps \<Rightarrow>
                  (case create_joins iid ps d1 of
                     (Inl e, d2) \<Rightarrow> (Inl e, d2)
                   | (Inr _, d2) \<Rightarrow> finish d2)))"

text \<open>
  The way an invoice is updated by its callers, \<^verbatim>\<open>await invoice.update(**kwargs).apply()\<close>:
  an exception of \<^verbatim>\<open>update\<close> leaves before \<^verbatim>\<open>apply\<close> is called.
\<close>

definition update_apply ::
  "kwargs \<Rightarrow> MyUpdateRequest \<Rightarrow> database \<Rightarrow> (error + MyUpdateRequest) \<times> database" where
  "update_apply kwargs self d =
     (case MyUpdateRequest_update kwargs self of
        Inl e \<Rightarrow> (Inl e, d)
      | Inr self1 \<Rightarrow> MyUpdateRequest_apply self1 d)"


section \<open>Deleting a product or an invoice\<close>

text \<open>
  A \<^verbatim>\<open>DELETE\<close> of a referenced row makes the database engine run the referential action
  that the referencing foreign key declares: \<open>CASCADE\<close> deletes the referencing rows,
  \<open>SET_NULL\<close> keeps them and sets the referencing column to NULL.
\<close>

definition referential_action ::
  "ondelete \<Rightarrow> ('r \<Rightarrow> int option) \<Rightarrow> ('r \<Rightarrow> 'r) \<Rightarrow> int \<Rightarrow> 'r list \<Rightarrow> 'r list" where
  "referential_action action col set_null key rows =
     (case action of
        CASCADE \<Rightarrow> filter (\<lambda>r. col r \<noteq> Some key) rows
      | SET_NULL \<Rightarrow> map (\<lambda>r. if col r = Some key then set_null r else r) rows)"

definition Product_delete :: "int \<Rightarrow> database \<Rightarrow> database" where
  "Product_delete pid d =
     (case find (\<lambda>r. Product_id r = pid) (products_table d) of
        None \<Rightarrow> d
      | Some _ \<Rightarrow>
          d\<lparr>products_table := filter (\<lambda>r. Product_id r \<noteq> pid) (products_table d),
            productsxinvoices_table :=
              referential_action ProductxInvoice_product_id_ondelete
                product_id (\<lambda>r. r\<lparr>product_id := None\<rparr>) pid (productsxinvoices_table d)\<rparr>)"

definition Invoice_delete :: "int \<Rightarrow> database \<Rightarrow> database" where
  "Invoice_delete iid d =
     (case find (\<lambda>r. Invoice_id r = iid) (invoices_table d) of
        None \<Rightarrow> d
      | Some _ \<Rightarrow>
          d\<lparr>invoices_table := filter (\<lambda>r. Invoice_id r \<noteq> iid) (invoices_table d),
            productsxinvoices_table :=
              referential_action ProductxInvoice_invoice_id_ondelete
                invoice_id (\<lambda>r. r\<lparr>invoice_id := None\<rparr>) iid (productsxinvoices_table d)\<rparr>)"


section \<open>A sample shop\<close>

text \<open>
  One user, one wallet, one store selling two products, and one invoice associated with both
  products. A third product belongs to a store whose wallet was deleted, a fourth to a store
  that was deleted: the references are NULL. The daemon \<open>shop_addrequest\<close> answers every
  request with the same address; \<open>down_addrequest\<close> cannot be reached.
\<close>

definition shop_user :: User where
  "shop_user =
     \<lparr>User_id = 5, username = Some ''alice'', User_email = Some ''alice@example.org'',
      hashed_password = Some ''$2b$12$abc'', is_superuser = Some False\<rparr>"

definition shop_wallet :: Wallet where
  "shop_wallet =
     \<lparr>Wallet_id = 3, Wallet_name = Some ''main'', Wallet_xpub = Some ''xpub6CUGRUo'',
      Wallet_balance = Some 0, Wallet_user_id = Some 5\<rparr>"

definition shop_store :: "int \<Rightarrow> int option \<Rightarrow> Store" where
  "shop_store i w =
     \<lparr>Store_id = i, Store_name = None, Store_domain = None, Store_template = None,
      Store_email = None, Store_wallet_id = w, email_host = None, email_password = None,
      email_port = None, email_use_ssl = None, email_user = None\<rparr>"

definition shop_product :: "int \<Rightarrow> int option \<Rightarrow> Product" where
  "shop_product i s =
     \<lparr>Product_id = i, Product_amount = 150000000, Product_quantity = 100000000,
      Product_title = ''socks'', Product_date = 1572000000,
      Product_description = Some ''a pair of socks'', Product_image = None,
      Product_store_id = s, Product_status = ''active''\<rparr>"

definition shop_invoice :: Invoice where
  "shop_invoice =
     \<lparr>Invoice_id = 1,
      Invoice_attrs =
        [(''amount'', VInt 150000000), (''status'', VStr ''Pending''),
         (''date'', VInt 1572000000), (''bitcoin_address'', VStr ''bc1qold''),
         (''bitcoin_url'', VStr ''bitcoin:bc1qold?amount=1.5'')]\<rparr>"

definition shop :: database where
  "shop =
     \<lparr>users_table = [shop_user],
      tokens_table = [],
      wallets_table = [shop_wallet],
      stores_table = [shop_store 2 (Some 3), shop_store 4 None],
      products_table =
        [shop_product 10 (Some 2), shop_product 11 (Some 2), shop_product 12 (Some 4),
         shop_product 13 None],
      invoices_table = [shop_invoice],
      invoices_id_seq = 1,
      productsxinvoices_table =
        [\<lparr>product_id = Some 10, invoice_id = Some 1\<rparr>,
         \<lparr>product_id = Some 11, invoice_id = Some 1\<rparr>]\<rparr>"

definition shop_addrequest :: addrequest where
  "shop_addrequest xpub amount description =
     Inr [(''address'', VStr ''bc1qnew''), (''URI'', VStr ''bitcoin:bc1qnew?amount=1.5'')]"

definition down_addrequest :: addrequest where
  "down_addrequest xpub amount description = Inl (ConnectionError ''connection refused'')"

definition shop_kwargs :: "int list \<Rightarrow> kwargs" where
  "shop_kwargs ps =
     [(''amount'', VInt 150000000), (''products'', VList ps), (''status'', VStr ''Pending''),
      (''date'', VInt 1572000000)]"

text \<open>The request made by \<^verbatim>\<open>invoice.update\<close> for the sample invoice, before any update.\<close>

definition shop_request :: MyUpdateRequest where
  "shop_request =
     \<lparr>self_instance = (''id'', VInt 1) # Invoice_attrs shop_invoice, self_locator = 1,
      self_values = [], self_products = VNone\<rparr>"

definition shop_entropy :: "nat \<Rightarrow> 8 word" where
  "shop_entropy k = of_nat (37 * k + 11)"

definition shop_token :: Token where
  "shop_token =
     \<lparr>Token_key = ''0b30557a9fc4e90e33587da2c7ec11365b80a5ca'', Token_user_id = Some 5,
      Token_created = Some 1572000000\<rparr>"

text \<open>The invoice that the sample daemon's answer produces for the sample arguments.\<close>

definition shop_new_invoice :: Invoice where
  "shop_new_invoice =
     \<lparr>Invoice_id = 2,
      Invoice_attrs =
        [(''amount'', VInt 150000000), (''status'', VStr ''Pending''),
         (''date'', VInt 1572000000), (''bitcoin_address'', VStr ''bc1qnew''),
         (''bitcoin_url'', VStr ''bitcoin:bc1qnew?amount=1.5'')]\<rparr>"


section \<open>Token issuance\<close>

lemma length_bytes_hex: "length (bytes_hex bs) = 2 * length bs"
  by (induction bs) (simp_all add: bytes_hex_def)

lemma hexdigits_nth: "n < 16 \<Longrightarrow> hexdigits ! n \<in> set hexdigits"
proof -
  assume "n < 16"
  moreover have "length hexdigits = 16" by (simp add: hexdigits_def)
  ultimately show ?thesis by (simp only: nth_mem)
qed

lemma set_bytes_hex: "set (bytes_hex bs) \<subseteq> set hexdigits"
proof (induction bs)
  case Nil
  show ?case by (simp add: bytes_hex_def)
next
  case (Cons b bs)
  have "unat b < 256" using unsigned_less [of b] by simp
  then have hi: "unat b div 16 < 16" by simp
  have lo: "unat b mod 16 < 16" by simp
  from Cons hexdigits_nth [OF hi] hexdigits_nth [OF lo] show ?case
    by (simp add: bytes_hex_def)
qed

lemma length_os_urandom: "length (os_urandom entropy n) = n"
  by (simp add: os_urandom_def)

text \<open>
  Claim C9. \<^verbatim>\<open>Token.create(user)\<close> appends exactly one row to the tokens table and changes
  nothing else. The key of the row is the hexadecimal print of 20 bytes of entropy: 40
  characters, all of them hexadecimal digits. Its timestamp is the reading of the clock
  returned by \<^verbatim>\<open>utils.now()\<close>, which is not later than the current time, and its
  \<^verbatim>\<open>user_id\<close> is the id of the given user.
\<close>

theorem Token_create_persists_one_token:
  assumes "Token_create entropy clock user d = (t, d')"
  shows "d' = d\<lparr>tokens_table := tokens_table d @ [t]\<rparr>
       \<and> Token_key t = bytes_hex (os_urandom entropy 20)
       \<and> length (os_urandom entropy 20) = 20
       \<and> length (Token_key t) = 40
       \<and> set (Token_key t) \<subseteq> set hexdigits
       \<and> Token_created t = Some (utils_now clock)
       \<and> utils_now clock \<le> clock
       \<and> Token_user_id t = Some (User_id user)"
proof -
  from assms have t: "t = \<lparr>Token_key = bytes_hex (os_urandom entropy 20),
        Token_user_id = Some (User_id user), Token_created = Some (utils_now clock)\<rparr>"
    and d': "d' = d\<lparr>tokens_table := tokens_table d @ [t]\<rparr>"
    by (auto simp: Token_create_def Model_create_Token_def Let_def)
  have len: "length (Token_key t) = 40"
    by (simp add: t length_bytes_hex length_os_urandom)
  have hex: "set (Token_key t) \<subseteq> set hexdigits"
    using set_bytes_hex [of "os_urandom entropy 20"] by (simp add: t)
  have rest: "Token_key t = bytes_hex (os_urandom entropy 20)"
    "Token_created t = Some (utils_now clock)" "Token_user_id t = Some (User_id user)"
    by (simp_all add: t)
  have now: "utils_now clock \<le> clock" by (simp add: utils_now_def)
  from d' rest len hex now length_os_urandom [of entropy 20] show ?thesis by blast
qed

theorem Token_create_persists_one_token_witness:
  "Token_create shop_entropy 1572000000 shop_user shop =
     (shop_token, shop\<lparr>tokens_table := tokens_table shop @ [shop_token]\<rparr>)
   \<and> length (Token_key shop_token) = 40
   \<and> set (Token_key shop_token) \<subseteq> set hexdigits
   \<and> Token_created shop_token = Some (utils_now 1572000000)
   \<and> Token_user_id shop_token = Some (User_id shop_user)"
proof -
  have e: "Token_create shop_entropy 1572000000 shop_user shop =
     (shop_token, shop\<lparr>tokens_table := tokens_table shop @ [shop_token]\<rparr>)"
    by (simp add: Token_create_def Model_create_Token_def utils_now_def os_urandom_def
        bytes_hex_def hexdigits_def shop_entropy_def shop_user_def shop_token_def upt_rec
        Let_def)
  from Token_create_persists_one_token [OF e] e show ?thesis by blast
qed


section \<open>Facts about the sample shop\<close>

lemma shop_joins:
  "productsxinvoices_table shop =
     [\<lparr>product_id = Some 10, invoice_id = Some 1\<rparr>, \<lparr>product_id = Some 11, invoice_id = Some 1\<rparr>]"
  by (simp add: shop_def)

lemma shop_gets:
  "Product_get 10 shop = Inr (Some (shop_product 10 (Some 2)))"
  "Product_get 11 shop = Inr (Some (shop_product 11 (Some 2)))"
  "Product_get 12 shop = Inr (Some (shop_product 12 (Some 4)))"
  "Product_get 13 shop = Inr (Some (shop_product 13 None))"
  "Product_get 77 shop = Inr None"
  "Product_get 2147483648 shop = Inl (DataError ''value out of int32 range'')"
  "Store_get (Some 2) shop = Some (shop_store 2 (Some 3))"
  "Store_get (Some 4) shop = Some (shop_store 4 None)"
  "Store_get None shop = None"
  "Wallet_get (Some 3) shop = Some shop_wallet"
  "Wallet_get None shop = None"
  "Invoice_get 1 shop = Some shop_invoice"
  "Invoice_get 2 shop = None"
  by (simp_all add: Product_get_def Store_get_def Wallet_get_def Invoice_get_def int4_def
      shop_def shop_product_def shop_store_def shop_wallet_def shop_invoice_def)

lemma shop_fields:
  "Product_store_id (shop_product i s) = s"
  "Product_description (shop_product i s) = Some ''a pair of socks''"
  "Store_wallet_id (shop_store j w) = w"
  "Wallet_xpub shop_wallet = Some ''xpub6CUGRUo''"
  "invoices_id_seq shop = 1"
  "invoices_table shop = [shop_invoice]"
  by (simp_all add: shop_product_def shop_store_def shop_wallet_def shop_def)

lemma shop_kwargs_lookup:
  "map_of (shop_kwargs ps) ''products'' = Some (VList ps)"
  "map_of (shop_kwargs ps) ''amount'' = Some (VInt 150000000)"
  by (simp_all add: shop_kwargs_def)

lemma str_int_examples:
  "str_int 77 = ''77''" "str_opt_int None = ''None''"
  by (simp_all add: str_int_def str_opt_int_def str_nat.simps)


section \<open>The insert of an invoice\<close>

text \<open>
  An insert that is accepted appends the row it returns and changes nothing else but the
  sequence; the row carries the keyword arguments, and its primary key was unused.
\<close>

lemma Model_create_Invoice_accepted:
  assumes "Model_create_Invoice kwargs d = (Inr invoice, d')"
  shows "d' = d\<lparr>invoices_table := invoices_table d @ [invoice],
                 invoices_id_seq := invoices_id_seq d'\<rparr>"
    and "Invoice_attrs invoice = AList.delete ''id'' kwargs"
    and "Invoice_get (Invoice_id invoice) d = None"
    and "productsxinvoices_table d' = productsxinvoices_table d"
    and "map_of kwargs ''id'' = None \<longrightarrow> Invoice_id invoice = invoices_id_seq d + 1"
  using assms
  by (auto simp: Model_create_Invoice_def Let_def Invoice_get_def kwargs_get_def
      split: option.splits val.splits if_splits prod.splits)

text \<open>Whatever the insert answers, it leaves the join table alone.\<close>

lemma Model_create_Invoice_joins:
  "productsxinvoices_table (snd (Model_create_Invoice kwargs d)) = productsxinvoices_table d"
  by (simp add: Model_create_Invoice_def Let_def
      split: option.splits val.splits if_splits prod.splits)

text \<open>
  Sufficient for an insert to be accepted: every keyword is a column, every value can be
  encoded and is within the precision or length of its column, no \<^verbatim>\<open>id\<close> is given and
  the next value of the sequence is unused, and the five other columns have a value.
\<close>

lemma Model_create_Invoice_accepts:
  assumes cols: "\<forall>(k, v) \<in> set kwargs. is_column k \<and> encodable k v \<and> within_range k v"
    and id: "map_of kwargs ''id'' = None"
    and fresh: "Invoice_get (invoices_id_seq d + 1) d = None"
    and full: "\<forall>k \<in> set [''amount'', ''status'', ''date'', ''bitcoin_address'', ''bitcoin_url''].
                 kwargs_get kwargs k \<noteq> VNone"
  shows "Model_create_Invoice kwargs d =
     (Inr \<lparr>Invoice_id = invoices_id_seq d + 1, Invoice_attrs = AList.delete ''id'' kwargs\<rparr>,
      d\<lparr>invoices_id_seq := invoices_id_seq d + 1,
        invoices_table := invoices_table d
          @ [\<lparr>Invoice_id = invoices_id_seq d + 1,
              Invoice_attrs = AList.delete ''id'' kwargs\<rparr>]\<rparr>)"
proof -
  have a: "find (\<lambda>(k, v). \<not> is_column k) kwargs = None"
    and b: "find (\<lambda>(k, v). \<not> encodable k v) kwargs = None"
    and c: "find (\<lambda>(k, v). \<not> within_range k v) kwargs = None"
    using cols by (auto simp: find_None_iff)
  have idr: "within_range ''id'' (VInt (invoices_id_seq d + 1))"
    by (simp add: within_range_def Invoice_columns_def)
  have nn: "find (\<lambda>k. kwargs_get ((''id'', VInt (invoices_id_seq d + 1)) # kwargs) k = VNone)
              (map fst Invoice_columns) = None"
    using full by (simp add: Invoice_columns_def kwargs_get_def)
  have getid: "kwargs_get ((''id'', VInt (invoices_id_seq d + 1)) # kwargs) ''id'' =
      VInt (invoices_id_seq d + 1)"
    by (simp add: kwargs_get_def)
  have fresh': "Invoice_get (invoices_id_seq d + 1) (d\<lparr>invoices_id_seq := invoices_id_seq d + 1\<rparr>)
      = None"
    using fresh by (simp add: Invoice_get_def)
  show ?thesis
    by (simp add: Model_create_Invoice_def Let_def a b c id idr nn getid fresh')
qed


section \<open>Invoice creation\<close>

text \<open>
  Once the first product, its store and the store's wallet are found, what is left of
  \<^verbatim>\<open>Invoice.create\<close> is the call of the daemon and the insert.
\<close>

lemma Invoice_create_resolved:
  assumes "map_of kwargs ''products'' = Some (VList (p # ps))"
    and "Product_get p d = Inr (Some product)"
    and "Store_get (Product_store_id product) d = Some store"
    and "Wallet_get (Store_wallet_id store) d = Some wallet"
  shows "Invoice_create addrequest kwargs d =
     (case map_of kwargs ''amount'' of
        None \<Rightarrow> (Inl (KeyError ''amount''), d)
      | Some amount \<Rightarrow>
          (case addrequest (Wallet_xpub wallet) amount (Product_description product) of
             Inl e \<Rightarrow> (Inl e, d)
           | Inr data_got \<Rightarrow>
               (case map_of data_got ''address'' of
                  None \<Rightarrow> (Inl (KeyError ''address''), d)
                | Some address \<Rightarrow>
                    (case map_of data_got ''URI'' of
                       None \<Rightarrow> (Inl (KeyError ''URI''), d)
                     | Some uri \<Rightarrow>
                         (case Model_create_Invoice
                                 (AList.delete ''products''
                                   (AList.update ''bitcoin_url'' uri
                                     (AList.update ''bitcoin_address'' address kwargs))) d of
                            (Inl e, d') \<Rightarrow> (Inl e, d')
                          | (Inr invoice, d') \<Rightarrow> (Inr (invoice, Wallet_xpub wallet), d'))))))"
  using assms
  by (simp add: Invoice_create_def Let_def split: option.split sum.split prod.split)

lemma shop_insert_ok:
  "Model_create_Invoice
     (AList.delete ''products''
       (AList.update ''bitcoin_url'' (VStr ''bitcoin:bc1qnew?amount=1.5'')
         (AList.update ''bitcoin_address'' (VStr ''bc1qnew'') (shop_kwargs [10, 11])))) shop =
     (Inr shop_new_invoice,
      shop\<lparr>invoices_table := invoices_table shop @ [shop_new_invoice],
           invoices_id_seq := 2\<rparr>)"
proof -
  let ?kw = "[(''amount'', VInt 150000000), (''status'', VStr ''Pending''),
      (''date'', VInt 1572000000), (''bitcoin_address'', VStr ''bc1qnew''),
      (''bitcoin_url'', VStr ''bitcoin:bc1qnew?amount=1.5'')]"
  have kw: "AList.delete ''products''
       (AList.update ''bitcoin_url'' (VStr ''bitcoin:bc1qnew?amount=1.5'')
         (AList.update ''bitcoin_address'' (VStr ''bc1qnew'') (shop_kwargs [10, 11]))) = ?kw"
    by (simp add: shop_kwargs_def)
  have cols: "\<forall>(k, v) \<in> set ?kw. is_column k \<and> encodable k v \<and> within_range k v"
    by (simp add: is_column_def encodable_def within_range_def Invoice_columns_def)
  have id: "map_of ?kw ''id'' = None" by simp
  have fresh: "Invoice_get (invoices_id_seq shop + 1) shop = None"
    by (simp add: shop_fields shop_gets)
  have full: "\<forall>k \<in> set [''amount'', ''status'', ''date'', ''bitcoin_address'', ''bitcoin_url''].
      kwargs_get ?kw k \<noteq> VNone"
    by (simp add: kwargs_get_def)
  from Model_create_Invoice_accepts [OF cols id fresh full] show ?thesis
    by (simp add: kw shop_fields shop_new_invoice_def)
qed

lemma shop_create_ok:
  "Invoice_create shop_addrequest (shop_kwargs [10, 11]) shop =
     (Inr (shop_new_invoice, Some ''xpub6CUGRUo''),
      shop\<lparr>invoices_table := invoices_table shop @ [shop_new_invoice],
           invoices_id_seq := 2\<rparr>)"
proof -
  have store: "Store_get (Product_store_id (shop_product 10 (Some 2))) shop =
      Some (shop_store 2 (Some 3))"
    by (simp add: shop_fields shop_gets)
  have wallet: "Wallet_get (Store_wallet_id (shop_store 2 (Some 3))) shop = Some shop_wallet"
    by (simp add: shop_fields shop_gets)
  have products: "map_of (shop_kwargs [10, 11]) ''products'' = Some (VList (10 # [11]))"
    by (simp add: shop_kwargs_lookup)
  show ?thesis
    by (simp add: Invoice_create_resolved [OF products shop_gets(1) store wallet]
        shop_kwargs_lookup shop_addrequest_def shop_insert_ok shop_fields)
qed

text \<open>
  Claim C4, as stated, fails. With the chain of product, store and wallet valid and the
  daemon answering, a call that gives \<^verbatim>\<open>amount\<close> and \<^verbatim>\<open>products\<close> but no \<^verbatim>\<open>status\<close>
  persists no invoice: the payment request is made, and the insert is then refused because
  the column \<^verbatim>\<open>status\<close> may not be NULL.
\<close>

theorem Invoice_create_without_status_counterexample:
  "Product_get 10 shop = Inr (Some (shop_product 10 (Some 2)))
   \<and> Store_get (Some 2) shop = Some (shop_store 2 (Some 3))
   \<and> Wallet_get (Some 3) shop = Some shop_wallet
   \<and> fst (Invoice_create shop_addrequest
            [(''amount'', VInt 150000000), (''products'', VList [10, 11])] shop) =
       Inl (NotNullViolationError ''status'')
   \<and> invoices_table (snd (Invoice_create shop_addrequest
            [(''amount'', VInt 150000000), (''products'', VList [10, 11])] shop)) =
       invoices_table shop"
proof -
  let ?kw = "[(''amount'', VInt 150000000), (''products'', VList [10, 11])]"
  have store: "Store_get (Product_store_id (shop_product 10 (Some 2))) shop =
      Some (shop_store 2 (Some 3))"
    by (simp add: shop_fields shop_gets)
  have wallet: "Wallet_get (Store_wallet_id (shop_store 2 (Some 3))) shop = Some shop_wallet"
    by (simp add: shop_fields shop_gets)
  have products: "map_of ?kw ''products'' = Some (VList (10 # [11]))"
    by simp
  have ins: "Model_create_Invoice
       [(''amount'', VInt 150000000), (''bitcoin_address'', VStr ''bc1qnew''),
        (''bitcoin_url'', VStr ''bitcoin:bc1qnew?amount=1.5'')] shop =
     (Inl (NotNullViolationError ''status''), shop\<lparr>invoices_id_seq := 2\<rparr>)"
    by (simp add: Model_create_Invoice_def Let_def is_column_def encodable_def
        within_range_def Invoice_columns_def kwargs_get_def shop_fields)
  have "Invoice_create shop_addrequest ?kw shop =
      (Inl (NotNullViolationError ''status''), shop\<lparr>invoices_id_seq := 2\<rparr>)"
    by (simp add: Invoice_create_resolved [OF products shop_gets(1) store wallet]
        shop_addrequest_def ins)
  then show ?thesis by (simp add: shop_gets)
qed

text \<open>
  Claim C4, amended. When \<^verbatim>\<open>products\<close> is a non-empty list whose first id is an existing
  product, the product's store exists, the store's wallet exists, the daemon answers the
  payment request with an address and a URI, and the invoices table accepts the row made of
  the other keyword arguments with that address and that URI, then \<^verbatim>\<open>Invoice.create\<close>
  appends exactly one row to the invoices table and changes no other table; the row's
  \<^verbatim>\<open>bitcoin_address\<close> and \<^verbatim>\<open>bitcoin_url\<close> are the address and the URI of the answer,
  unchanged; and the call returns that invoice together with the xpub of the resolved
  wallet.
\<close>

theorem Invoice_create_valid_chain:
  assumes "map_of kwargs ''products'' = Some (VList (p # ps))"
    and "map_of kwargs ''amount'' = Some amount"
    and "Product_get p d = Inr (Some product)"
    and "Store_get (Product_store_id product) d = Some store"
    and "Wallet_get (Store_wallet_id store) d = Some wallet"
    and "addrequest (Wallet_xpub wallet) amount (Product_description product) = Inr data_got"
    and "map_of data_got ''address'' = Some address"
    and "map_of data_got ''URI'' = Some uri"
    and "Model_create_Invoice
           (AList.delete ''products''
             (AList.update ''bitcoin_url'' uri
               (AList.update ''bitcoin_address'' address kwargs))) d = (Inr invoice, d')"
  shows "Invoice_create addrequest kwargs d = (Inr (invoice, Wallet_xpub wallet), d')
       \<and> d' = d\<lparr>invoices_table := invoices_table d @ [invoice],
                 invoices_id_seq := invoices_id_seq d'\<rparr>
       \<and> map_of (Invoice_attrs invoice) ''bitcoin_address'' = Some address
       \<and> map_of (Invoice_attrs invoice) ''bitcoin_url'' = Some uri
       \<and> map_of (Invoice_attrs invoice) ''amount'' = Some amount"
proof -
  have run: "Invoice_create addrequest kwargs d = (Inr (invoice, Wallet_xpub wallet), d')"
    using assms(2,6,7,8,9) by (simp add: Invoice_create_resolved [OF assms(1,3,4,5)])
  note ins = Model_create_Invoice_accepted [OF assms(9)]
  have attrs: "map_of (Invoice_attrs invoice) ''bitcoin_address'' = Some address"
    "map_of (Invoice_attrs invoice) ''bitcoin_url'' = Some uri"
    "map_of (Invoice_attrs invoice) ''amount'' = Some amount"
    using assms(2)
    by (simp_all add: ins(2) AList.delete_conv' AList.update_conv' restrict_map_def)
  from run ins(1) attrs show ?thesis by blast
qed

theorem Invoice_create_valid_chain_witness:
  "Invoice_create shop_addrequest (shop_kwargs [10, 11]) shop =
     (Inr (shop_new_invoice, Wallet_xpub shop_wallet),
      shop\<lparr>invoices_table := invoices_table shop @ [shop_new_invoice],
           invoices_id_seq := 2\<rparr>)
   \<and> map_of (Invoice_attrs shop_new_invoice) ''bitcoin_address'' = Some (VStr ''bc1qnew'')
   \<and> map_of (Invoice_attrs shop_new_invoice) ''bitcoin_url'' =
       Some (VStr ''bitcoin:bc1qnew?amount=1.5'')"
proof -
  let ?data = "[(''address'', VStr ''bc1qnew''), (''URI'', VStr ''bitcoin:bc1qnew?amount=1.5'')]"
  have store: "Store_get (Product_store_id (shop_product 10 (Some 2))) shop =
      Some (shop_store 2 (Some 3))"
    by (simp add: shop_fields shop_gets)
  have wallet: "Wallet_get (Store_wallet_id (shop_store 2 (Some 3))) shop = Some shop_wallet"
    by (simp add: shop_fields shop_gets)
  have rpc: "shop_addrequest (Wallet_xpub shop_wallet) (VInt 150000000)
      (Product_description (shop_product 10 (Some 2))) = Inr ?data"
    by (simp add: shop_addrequest_def)
  have address: "map_of ?data ''address'' = Some (VStr ''bc1qnew'')"
    and uri: "map_of ?data ''URI'' = Some (VStr ''bitcoin:bc1qnew?amount=1.5'')"
    by simp_all
  have products: "map_of (shop_kwargs [10, 11]) ''products'' = Some (VList (10 # [11]))"
    and amount: "map_of (shop_kwargs [10, 11]) ''amount'' = Some (VInt 150000000)"
    by (simp_all add: shop_kwargs_lookup)
  from Invoice_create_valid_chain [where addrequest = shop_addrequest,
      OF products amount shop_gets(1) store wallet rpc address uri shop_insert_ok]
  show ?thesis by blast
qed

text \<open>
  Claim C5. When the chain of product, store and wallet is valid and the payment request
  fails, \<^verbatim>\<open>Invoice.create\<close> raises the very exception the daemon's client raised, and the
  database is the one it started from: nothing is written before the call returns, so no
  invoice row exists without an address.
\<close>

theorem Invoice_create_rpc_failure:
  assumes "map_of kwargs ''products'' = Some (VList (p # ps))"
    and "map_of kwargs ''amount'' = Some amount"
    and "Product_get p d = Inr (Some product)"
    and "Store_get (Product_store_id product) d = Some store"
    and "Wallet_get (Store_wallet_id store) d = Some wallet"
    and "addrequest (Wallet_xpub wallet) amount (Product_description product) = Inl e"
  shows "Invoice_create addrequest kwargs d = (Inl e, d)"
  using assms by (simp add: Invoice_create_resolved [OF assms(1,3,4,5)])

theorem Invoice_create_rpc_failure_witness:
  "Invoice_create down_addrequest (shop_kwargs [10, 11]) shop =
     (Inl (ConnectionError ''connection refused''), shop)"
proof -
  have store: "Store_get (Product_store_id (shop_product 10 (Some 2))) shop =
      Some (shop_store 2 (Some 3))"
    by (simp add: shop_fields shop_gets)
  have wallet: "Wallet_get (Store_wallet_id (shop_store 2 (Some 3))) shop = Some shop_wallet"
    by (simp add: shop_fields shop_gets)
  have rpc: "down_addrequest (Wallet_xpub shop_wallet) (VInt 150000000)
      (Product_description (shop_product 10 (Some 2))) =
      Inl (ConnectionError ''connection refused'')"
    by (simp add: down_addrequest_def)
  have products: "map_of (shop_kwargs [10, 11]) ''products'' = Some (VList (10 # [11]))"
    and amount: "map_of (shop_kwargs [10, 11]) ''amount'' = Some (VInt 150000000)"
    by (simp_all add: shop_kwargs_lookup)
  from Invoice_create_rpc_failure [where addrequest = down_addrequest,
      OF products amount shop_gets(1) store wallet rpc]
  show ?thesis .
qed

text \<open>
  Claim C6, as stated, fails. A first product id beyond the 32-bit range of the primary
  key names no product, and yet the call does not fail with the 422 error
  \<^verbatim>\<open>Product {id} doesn't exist!\<close>: the lookup itself raises \<^verbatim>\<open>DataError\<close>.
\<close>

theorem Invoice_create_product_id_out_of_range_counterexample:
  "Invoice_create shop_addrequest (shop_kwargs [2147483648]) shop =
     (Inl (DataError ''value out of int32 range''), shop)"
  by (simp add: Invoice_create_def shop_kwargs_lookup shop_gets)

text \<open>
  Claim C6, amended. The four validation failures of \<^verbatim>\<open>Invoice.create\<close>, in the order of
  the checks, each an \<^verbatim>\<open>HTTPException\<close> with status 422 and the fixed message, each leaving
  the database as it was, whatever the daemon would answer: an empty \<^verbatim>\<open>products\<close> list;
  a first product id for which the lookup finds no product (an id within the 32-bit range of
  the key that names no row); a product whose \<^verbatim>\<open>store_id\<close> names no store; a store whose
  wallet is not found.
\<close>

theorem Invoice_create_validation_errors:
  "(map_of kwargs ''products'' = Some (VList []) \<longrightarrow>
      Invoice_create addrequest kwargs d =
        (Inl (HTTPException 422 ''Products list empty''), d))
 \<and> (map_of kwargs ''products'' = Some (VList (p # ps)) \<and> Product_get p d = Inr None \<longrightarrow>
      Invoice_create addrequest kwargs d =
        (Inl (HTTPException 422 (''Product '' @ str_int p @ '' doesn't exist!'')), d))
 \<and> (map_of kwargs ''products'' = Some (VList (p # ps))
      \<and> Product_get p d = Inr (Some product)
      \<and> Store_get (Product_store_id product) d = None \<longrightarrow>
      Invoice_create addrequest kwargs d =
        (Inl (HTTPException 422
               (''Store '' @ str_opt_int (Product_store_id product) @ '' doesn't exist!'')), d))
 \<and> (map_of kwargs ''products'' = Some (VList (p # ps))
      \<and> Product_get p d = Inr (Some product)
      \<and> Store_get (Product_store_id product) d = Some store
      \<and> Wallet_get (Store_wallet_id store) d = None \<longrightarrow>
      Invoice_create addrequest kwargs d =
        (Inl (HTTPException 422 ''No wallet linked''), d))"
proof (intro conjI impI)
  assume "map_of kwargs ''products'' = Some (VList [])"
  then show "Invoice_create addrequest kwargs d =
      (Inl (HTTPException 422 ''Products list empty''), d)"
    by (simp add: Invoice_create_def)
next
  assume "map_of kwargs ''products'' = Some (VList (p # ps)) \<and> Product_get p d = Inr None"
  then show "Invoice_create addrequest kwargs d =
      (Inl (HTTPException 422 (''Product '' @ str_int p @ '' doesn't exist!'')), d)"
    by (simp add: Invoice_create_def)
next
  assume "map_of kwargs ''products'' = Some (VList (p # ps))
      \<and> Product_get p d = Inr (Some product)
      \<and> Store_get (Product_store_id product) d = None"
  then show "Invoice_create addrequest kwargs d =
      (Inl (HTTPException 422
             (''Store '' @ str_opt_int (Product_store_id product) @ '' doesn't exist!'')), d)"
    by (simp add: Invoice_create_def)
next
  assume "map_of kwargs ''products'' = Some (VList (p # ps))
      \<and> Product_get p d = Inr (Some product)
      \<and> Store_get (Product_store_id product) d = Some store
      \<and> Wallet_get (Store_wallet_id store) d = None"
  then show "Invoice_create addrequest kwargs d =
      (Inl (HTTPException 422 ''No wallet linked''), d)"
    by (simp add: Invoice_create_def)
qed

theorem Invoice_create_validation_errors_witness:
  "Invoice_create shop_addrequest (shop_kwargs []) shop =
     (Inl (HTTPException 422 ''Products list empty''), shop)
 \<and> Invoice_create shop_addrequest (shop_kwargs [77, 10]) shop =
     (Inl (HTTPException 422 ''Product 77 doesn't exist!''), shop)
 \<and> Invoice_create shop_addrequest (shop_kwargs [13, 10]) shop =
     (Inl (HTTPException 422 ''Store None doesn't exist!''), shop)
 \<and> Invoice_create shop_addrequest (shop_kwargs [12, 10]) shop =
     (Inl (HTTPException 422 ''No wallet linked''), shop)"
proof -
  have a: "Invoice_create shop_addrequest (shop_kwargs []) shop =
     (Inl (HTTPException 422 ''Products list empty''), shop)"
    using Invoice_create_validation_errors [of "shop_kwargs []" shop_addrequest shop]
    by (simp add: shop_kwargs_lookup)
  have b: "Invoice_create shop_addrequest (shop_kwargs [77, 10]) shop =
     (Inl (HTTPException 422 ''Product 77 doesn't exist!''), shop)"
    using Invoice_create_validation_errors [of "shop_kwargs [77, 10]" shop_addrequest shop 77 "[10]"]
    by (simp add: shop_kwargs_lookup shop_gets str_int_examples)
  have c: "Invoice_create shop_addrequest (shop_kwargs [13, 10]) shop =
     (Inl (HTTPException 422 ''Store None doesn't exist!''), shop)"
    using Invoice_create_validation_errors [of "shop_kwargs [13, 10]" shop_addrequest shop 13 "[10]"
        "shop_product 13 None"]
    by (simp add: shop_kwargs_lookup shop_gets shop_fields str_int_examples)
  have d: "Invoice_create shop_addrequest (shop_kwargs [12, 10]) shop =
     (Inl (HTTPException 422 ''No wallet linked''), shop)"
    using Invoice_create_validation_errors [of "shop_kwargs [12, 10]" shop_addrequest shop 12 "[10]"
        "shop_product 12 (Some 4)" "shop_store 4 None"]
    by (simp add: shop_kwargs_lookup shop_gets shop_fields)
  from a b c d show ?thesis by blast
qed

text \<open>
  Claim C7. Only the first product id decides the outcome of \<^verbatim>\<open>Invoice.create\<close>: two
  calls that differ only in the ids after the first one return the same result (the same
  invoice and xpub, or the same exception) and leave the same database. The other ids are
  neither looked up nor checked.
\<close>

theorem Invoice_create_first_product_only:
  "Invoice_create addrequest (AList.update ''products'' (VList (p # ps)) kwargs) d =
   Invoice_create addrequest (AList.update ''products'' (VList (p # ps')) kwargs) d"
  by (simp add: Invoice_create_def AList.update_conv' AList.delete_update
      AList.delete_update_same Let_def split: option.split sum.split)

theorem Invoice_create_first_product_only_witness:
  "Invoice_create shop_addrequest (shop_kwargs [10, 11]) shop =
   Invoice_create shop_addrequest (shop_kwargs [10, 77, 13]) shop"
  using Invoice_create_first_product_only [of shop_addrequest 10 "[11]" "shop_kwargs []" shop "[77, 13]"]
  by (simp add: shop_kwargs_def)

text \<open>
  Claim C10. A successful \<^verbatim>\<open>Invoice.create\<close> leaves the join table as it was: the
  \<^verbatim>\<open>products\<close> entry is removed from the keyword arguments before the insert, the new
  row has no such attribute, and no join row is created. If no join row already refers to
  the id of the new invoice, the new invoice has no associated product. That id is the next
  value of the sequence unless the keyword arguments give one.
\<close>

theorem Invoice_create_creates_no_join_rows:
  assumes "Invoice_create addrequest kwargs d = (Inr (invoice, xpub), d')"
  shows "productsxinvoices_table d' = productsxinvoices_table d
       \<and> map_of (Invoice_attrs invoice) ''products'' = None
       \<and> ((\<forall>r \<in> set (productsxinvoices_table d). invoice_id r \<noteq> Some (Invoice_id invoice))
            \<longrightarrow> filter (\<lambda>r. invoice_id r = Some (Invoice_id invoice))
                  (productsxinvoices_table d') = [])
       \<and> (map_of kwargs ''id'' = None \<longrightarrow> Invoice_id invoice = invoices_id_seq d + 1)"
proof -
  from assms obtain kwargs3 where ins: "Model_create_Invoice kwargs3 d = (Inr invoice, d')"
    and no_products: "map_of kwargs3 ''products'' = None"
    and same_id: "map_of kwargs3 ''id'' = map_of kwargs ''id''"
    by (auto simp: Invoice_create_def Let_def AList.delete_conv' AList.update_conv'
        split: option.splits sum.splits if_splits val.splits list.splits prod.splits)
  note acc = Model_create_Invoice_accepted [OF ins]
  have "map_of (Invoice_attrs invoice) ''products'' = None"
    using no_products by (simp add: acc(2) AList.delete_conv')
  with acc(4) acc(5) same_id show ?thesis by (simp add: filter_empty_conv)
qed

theorem Invoice_create_creates_no_join_rows_witness:
  "productsxinvoices_table
     (snd (Invoice_create shop_addrequest (shop_kwargs [10, 11]) shop)) =
     productsxinvoices_table shop
   \<and> map_of (Invoice_attrs shop_new_invoice) ''products'' = None
   \<and> filter (\<lambda>r. invoice_id r = Some (Invoice_id shop_new_invoice))
        (productsxinvoices_table
          (snd (Invoice_create shop_addrequest (shop_kwargs [10, 11]) shop))) = []
   \<and> Invoice_id shop_new_invoice = invoices_id_seq shop + 1"
proof -
  have fresh: "\<forall>r \<in> set (productsxinvoices_table shop).
      invoice_id r \<noteq> Some (Invoice_id shop_new_invoice)"
    by (simp add: shop_joins shop_new_invoice_def)
  have no_id: "map_of (shop_kwargs [10, 11]) ''id'' = None"
    by (simp add: shop_kwargs_def)
  from Invoice_create_creates_no_join_rows [OF shop_create_ok] fresh no_id
  show ?thesis by (simp add: shop_create_ok)
qed


section \<open>Invoice update\<close>


text \<open>The loop of inserts touches no table but the join table.\<close>

lemma create_joins_other_tables:
  "invoices_table (snd (create_joins iid ps d)) = invoices_table d"
  by (induction ps arbitrary: d)
    (auto simp: ProductxInvoice_create_def split: sum.splits val.splits if_splits)



text \<open>The base \<^verbatim>\<open>update\<close> refuses a keyword that is not a column, wherever it stands.\<close>

lemma UpdateRequest_update_refuses:
  "map_of kwargs k = Some v \<Longrightarrow> \<not> is_column k \<Longrightarrow>
     \<exists>k'. UpdateRequest_update kwargs self = Inl (KeyError k')"
  by (induction kwargs arbitrary: self) (auto split: if_splits)


lemma MyUpdateRequest_update_absent:
  assumes "map_of kwargs ''products'' = None"
  shows "MyUpdateRequest_update kwargs self =
     UpdateRequest_update kwargs (self\<lparr>self_products := VNone\<rparr>)"
  using assms by (simp add: MyUpdateRequest_update_def kwargs_get_def Let_def)

lemma MyUpdateRequest_update_empty:
  assumes "map_of kwargs ''products'' = Some (VList [])"
  shows "MyUpdateRequest_update kwargs self =
     UpdateRequest_update kwargs (self\<lparr>self_products := VList []\<rparr>)"
  using assms by (simp add: MyUpdateRequest_update_def kwargs_get_def Let_def)

text \<open>
  An update whose \<^verbatim>\<open>products\<close> entry is the empty list never reaches \<^verbatim>\<open>apply\<close>: the
  entry is handed to the base \<^verbatim>\<open>update\<close>, which refuses it.
\<close>

lemma update_empty_products_raises:
  assumes "map_of kwargs ''products'' = Some (VList [])"
  shows "\<exists>k. update_apply kwargs self d = (Inl (KeyError k), d)"
proof -
  have "\<not> is_column ''products''" by (simp add: is_column_def Invoice_columns_def)
  from UpdateRequest_update_refuses [OF assms this]
  obtain k where "UpdateRequest_update kwargs (self\<lparr>self_products := VList []\<rparr>) =
      Inl (KeyError k)" by blast
  then show ?thesis
    by (simp add: update_apply_def MyUpdateRequest_update_empty [OF assms])
qed

text \<open>
  An update without a \<^verbatim>\<open>products\<close> entry, of columns only, on an instance whose \<^verbatim>\<open>id\<close>
  is an integer of the key's range: \<^verbatim>\<open>apply\<close> deletes the join rows of the invoice and
  raises.
\<close>

lemma MyUpdateRequest_apply_None:
  assumes "self_products self = VNone"
    and "kwargs_get (self_instance self) ''id'' = VInt iid" and "int4 iid"
  shows "MyUpdateRequest_apply self d =
     (Inl (TypeError ''NoneType object is not iterable''),
      d\<lparr>productsxinvoices_table :=
          filter (\<lambda>r. invoice_id r \<noteq> Some iid) (productsxinvoices_table d)\<rparr>)"
  using assms
  by (simp add: MyUpdateRequest_apply_def ProductxInvoice_delete_where_invoice_id_def Let_def)






text \<open>
  Claim C1. The specification wants an update without a \<^verbatim>\<open>products\<close> field to leave the
  join table untouched. The code does not: \<^verbatim>\<open>update\<close> stores \<^verbatim>\<open>None\<close> in
  \<^verbatim>\<open>self.products\<close>, and \<^verbatim>\<open>apply\<close> runs its delete statement before it iterates over
  that \<^verbatim>\<open>None\<close>. On the sample shop, whose invoice 1 has two associated products, the
  update of the status alone deletes both join rows and then raises \<^verbatim>\<open>TypeError\<close>.
\<close>

theorem update_without_products_wipes_join_rows:
  "update_apply [(''status'', VStr ''paid'')] shop_request shop =
     (Inl (TypeError ''NoneType object is not iterable''), shop\<lparr>productsxinvoices_table := []\<rparr>)
   \<and> productsxinvoices_table shop =
     [\<lparr>product_id = Some 10, invoice_id = Some 1\<rparr>, \<lparr>product_id = Some 11, invoice_id = Some 1\<rparr>]"
proof -
  let ?r = "shop_request
      \<lparr>self_instance := AList.update ''status'' (VStr ''paid'') (self_instance shop_request),
       self_values := [(''status'', VStr ''paid'')]\<rparr>"
  have upd: "MyUpdateRequest_update [(''status'', VStr ''paid'')] shop_request = Inr ?r"
    by (simp add: MyUpdateRequest_update_def kwargs_get_def Let_def is_column_def
        Invoice_columns_def shop_request_def)
  have none: "self_products ?r = VNone" by (simp add: shop_request_def)
  have id: "kwargs_get (self_instance ?r) ''id'' = VInt 1"
    by (simp add: kwargs_get_def shop_request_def shop_invoice_def)
  have key: "int4 1" by (simp add: int4_def)
  from MyUpdateRequest_apply_None [OF none id key, of shop] show ?thesis
    by (simp add: update_apply_def upd shop_joins)
qed

text \<open>
  Claim C2. The specification wants a \<^verbatim>\<open>products\<close> entry that is present to be taken out
  of the fields before the column update. The code takes it out only when the list is
  true, that is non-empty: with \<^verbatim>\<open>products=[]\<close> the entry stays among the keyword
  arguments handed to \<^verbatim>\<open>super().update\<close>, which takes it for a column and raises
  \<^verbatim>\<open>KeyError\<close>, so that the update fails before \<^verbatim>\<open>apply\<close>.
\<close>

theorem update_empty_products_not_extracted:
  "MyUpdateRequest_update [(''products'', VList [])] shop_request =
     UpdateRequest_update [(''products'', VList [])] (shop_request\<lparr>self_products := VList []\<rparr>)
   \<and> MyUpdateRequest_update [(''products'', VList [])] shop_request =
     Inl (KeyError ''products'')
   \<and> update_apply [(''products'', VList [])] shop_request shop =
     (Inl (KeyError ''products''), shop)"
proof -
  have present: "map_of [(''products'', VList [])] ''products'' = Some (VList [])" by simp
  have handed: "MyUpdateRequest_update [(''products'', VList [])] shop_request =
      UpdateRequest_update [(''products'', VList [])] (shop_request\<lparr>self_products := VList []\<rparr>)"
    by (rule MyUpdateRequest_update_empty [OF present])
  have refused: "UpdateRequest_update [(''products'', VList [])]
      (shop_request\<lparr>self_products := VList []\<rparr>) = Inl (KeyError ''products'')"
    by (simp add: is_column_def Invoice_columns_def)
  from handed refused show ?thesis by (simp add: update_apply_def)
qed


section \<open>Referential actions of the join table\<close>

text \<open>
  Claim C3, as stated, fails. Both foreign keys of \<^verbatim>\<open>ProductxInvoice\<close> are declared with
  \<^verbatim>\<open>ondelete="SET NULL"\<close>, not \<^verbatim>\<open>CASCADE\<close>: in the sample shop, deleting product 10 keeps
  both join rows of invoice 1 and sets the \<^verbatim>\<open>product_id\<close> of the first to NULL, and
  deleting invoice 1 keeps both rows with a NULL \<^verbatim>\<open>invoice_id\<close>.
\<close>

theorem delete_keeps_join_rows_counterexample:
  "productsxinvoices_table shop =
     [\<lparr>product_id = Some 10, invoice_id = Some 1\<rparr>, \<lparr>product_id = Some 11, invoice_id = Some 1\<rparr>]
   \<and> Product_get 10 shop = Inr (Some (shop_product 10 (Some 2)))
   \<and> productsxinvoices_table (Product_delete 10 shop) =
     [\<lparr>product_id = None, invoice_id = Some 1\<rparr>, \<lparr>product_id = Some 11, invoice_id = Some 1\<rparr>]
   \<and> invoices_table shop = [shop_invoice]
   \<and> Invoice_id shop_invoice = 1
   \<and> productsxinvoices_table (Invoice_delete 1 shop) =
     [\<lparr>product_id = Some 10, invoice_id = None\<rparr>, \<lparr>product_id = Some 11, invoice_id = None\<rparr>]"
proof -
  have product: "find (\<lambda>r. Product_id r = 10) (products_table shop) =
      Some (shop_product 10 (Some 2))"
    by (simp add: shop_def shop_product_def)
  have invoice: "find (\<lambda>r. Invoice_id r = 1) (invoices_table shop) = Some shop_invoice"
    by (simp add: shop_fields shop_invoice_def)
  show ?thesis
    by (simp add: shop_gets shop_joins shop_fields product invoice Product_delete_def
        Invoice_delete_def referential_action_def ProductxInvoice_product_id_ondelete_def
        ProductxInvoice_invoice_id_ondelete_def)
      (simp add: shop_invoice_def)
qed

text \<open>
  Claim C3, amended. Deleting an existing product keeps every join row and sets to NULL the
  \<^verbatim>\<open>product_id\<close> of the rows that referred to it; deleting an existing invoice keeps
  every join row and sets to NULL the \<^verbatim>\<open>invoice_id\<close> of the rows that referred to it.
\<close>

theorem delete_sets_join_reference_null:
  "(find (\<lambda>r. Product_id r = pid) (products_table d) \<noteq> None \<longrightarrow>
      productsxinvoices_table (Product_delete pid d) =
        map (\<lambda>r. if product_id r = Some pid then r\<lparr>product_id := None\<rparr> else r)
          (productsxinvoices_table d)
      \<and> length (productsxinvoices_table (Product_delete pid d)) =
        length (productsxinvoices_table d))
 \<and> (find (\<lambda>r. Invoice_id r = iid) (invoices_table d) \<noteq> None \<longrightarrow>
      productsxinvoices_table (Invoice_delete iid d) =
        map (\<lambda>r. if invoice_id r = Some iid then r\<lparr>invoice_id := None\<rparr> else r)
          (productsxinvoices_table d)
      \<and> length (productsxinvoices_table (Invoice_delete iid d)) =
        length (productsxinvoices_table d))"
  by (auto simp: Product_delete_def Invoice_delete_def referential_action_def
      ProductxInvoice_product_id_ondelete_def ProductxInvoice_invoice_id_ondelete_def)

theorem delete_sets_join_reference_null_witness:
  "productsxinvoices_table (Product_delete 10 shop) =
     [\<lparr>product_id = None, invoice_id = Some 1\<rparr>, \<lparr>product_id = Some 11, invoice_id = Some 1\<rparr>]
   \<and> length (productsxinvoices_table (Product_delete 10 shop)) = 2
   \<and> productsxinvoices_table (Invoice_delete 1 shop) =
     [\<lparr>product_id = Some 10, invoice_id = None\<rparr>, \<lparr>product_id = Some 11, invoice_id = None\<rparr>]
   \<and> length (productsxinvoices_table (Invoice_delete 1 shop)) = 2"
proof -
  have product: "find (\<lambda>r. Product_id r = 10) (products_table shop) \<noteq> None"
    by (simp add: shop_def shop_product_def)
  have invoice: "find (\<lambda>r. Invoice_id r = 1) (invoices_table shop) \<noteq> None"
    by (simp add: shop_fields shop_invoice_def)
  from delete_sets_join_reference_null [of 10 shop 1] product invoice show ?thesis
    by (simp add: shop_joins)
qed

end
